theory Spec2Isabelle
  imports Complex_Main "HOL-Library.Sublist"
begin

section \<open>Data model of the sketchpad (src/index.tsx)\<close>

text \<open>
  The source's \<open>number\<close> is modelled as \<open>real\<close>: arithmetic on coordinates is exact.
  The non-finite values the source can produce (the \<open>Infinity\<close> seeds of its
  \<open>reduce\<close> calls, and \<open>0 / 0\<close> for the centre of an empty path) are kept apart in
  the type \<open>jsnum\<close> below.
\<close>

record Point =
  x :: real
  y :: real
  t :: real
  p :: real

type_synonym Path = "Point list"

type_synonym LineSegment = "Point \<times> Point"

text \<open>The pointer event, with the fields the handlers read, and \<open>Date.now()\<close> at
  the moment the handler runs.\<close>

record PointerEvent =
  pointerId :: int
  offsetX :: real
  offsetY :: real
  pressure :: real
  now :: real

text \<open>The state of the \<open>Page\<close> component: \<open>pointerID\<close> is \<open>number | undefined\<close>.\<close>

record Page =
  canvasWidth :: real
  canvasHeight :: real
  mountedTime :: real
  paths :: "Path list"
  pointerID :: "int option"

datatype jsnum = NegInfinity | Finite real | Infinity | NaN

subsection \<open>Constants of the lasso variant\<close>

definition viewportZoom :: real where
  "viewportZoom = 10"

definition gridSize :: real where
  "gridSize = 32 * viewportZoom"

definition tileSize :: real where
  "tileSize = 4 * gridSize"

subsection \<open>Non-finite numbers\<close>

text \<open>\<open>Math.min\<close>, \<open>Math.max\<close>, the comparisons \<open><\<close> and \<open>>=\<close>, and the arithmetic
  operators on values that may be infinite or \<open>NaN\<close>.\<close>

fun mathMax :: "jsnum \<Rightarrow> jsnum \<Rightarrow> jsnum" where
  "mathMax NaN _ = NaN"
| "mathMax _ NaN = NaN"
| "mathMax Infinity _ = Infinity"
| "mathMax _ Infinity = Infinity"
| "mathMax NegInfinity b = b"
| "mathMax a NegInfinity = a"
| "mathMax (Finite a) (Finite b) = Finite (max a b)"

fun mathMin :: "jsnum \<Rightarrow> jsnum \<Rightarrow> jsnum" where
  "mathMin NaN _ = NaN"
| "mathMin _ NaN = NaN"
| "mathMin NegInfinity _ = NegInfinity"
| "mathMin _ NegInfinity = NegInfinity"
| "mathMin Infinity b = b"
| "mathMin a Infinity = a"
| "mathMin (Finite a) (Finite b) = Finite (min a b)"

fun numLess :: "jsnum \<Rightarrow> jsnum \<Rightarrow> bool" where
  "numLess NaN _ = False"
| "numLess _ NaN = False"
| "numLess _ NegInfinity = False"
| "numLess NegInfinity _ = True"
| "numLess Infinity _ = False"
| "numLess _ Infinity = True"
| "numLess (Finite a) (Finite b) = (a < b)"

fun numGreaterEq :: "jsnum \<Rightarrow> jsnum \<Rightarrow> bool" where
  "numGreaterEq NaN _ = False"
| "numGreaterEq _ NaN = False"
| "numGreaterEq _ NegInfinity = True"
| "numGreaterEq NegInfinity _ = False"
| "numGreaterEq Infinity _ = True"
| "numGreaterEq _ Infinity = False"
| "numGreaterEq (Finite a) (Finite b) = (a \<ge> b)"

fun numNeg :: "jsnum \<Rightarrow> jsnum" where
  "numNeg NaN = NaN"
| "numNeg Infinity = NegInfinity"
| "numNeg NegInfinity = Infinity"
| "numNeg (Finite a) = Finite (- a)"

fun numAdd :: "jsnum \<Rightarrow> jsnum \<Rightarrow> jsnum" where
  "numAdd NaN _ = NaN"
| "numAdd _ NaN = NaN"
| "numAdd Infinity NegInfinity = NaN"
| "numAdd NegInfinity Infinity = NaN"
| "numAdd Infinity _ = Infinity"
| "numAdd _ Infinity = Infinity"
| "numAdd NegInfinity _ = NegInfinity"
| "numAdd _ NegInfinity = NegInfinity"
| "numAdd (Finite a) (Finite b) = Finite (a + b)"

definition numSub :: "jsnum \<Rightarrow> jsnum \<Rightarrow> jsnum" where
  "numSub a b = numAdd a (numNeg b)"

fun numMul :: "jsnum \<Rightarrow> jsnum \<Rightarrow> jsnum" where
  "numMul NaN _ = NaN"
| "numMul _ NaN = NaN"
| "numMul (Finite a) (Finite b) = Finite (a * b)"
| "numMul (Finite a) Infinity =
     (if a = 0 then NaN else if 0 < a then Infinity else NegInfinity)"
| "numMul (Finite a) NegInfinity =
     (if a = 0 then NaN else if 0 < a then NegInfinity else Infinity)"
| "numMul Infinity (Finite b) =
     (if b = 0 then NaN else if 0 < b then Infinity else NegInfinity)"
| "numMul NegInfinity (Finite b) =
     (if b = 0 then NaN else if 0 < b then NegInfinity else Infinity)"
| "numMul Infinity Infinity = Infinity"
| "numMul NegInfinity NegInfinity = Infinity"
| "numMul Infinity NegInfinity = NegInfinity"
| "numMul NegInfinity Infinity = NegInfinity"

text \<open>\<open>sum / path.length\<close>, where the sum is finite and the length is an array length.\<close>

definition divByLength :: "real \<Rightarrow> nat \<Rightarrow> jsnum" where
  "divByLength s n =
     (if n = 0 then (if s = 0 then NaN else if 0 < s then Infinity else NegInfinity)
      else Finite (s / real n))"

subsection \<open>Arrays\<close>

text \<open>\<open>Array.prototype.slice(start, end)\<close>: a negative index counts from the end, and
  both indices are clamped to the array.\<close>

definition slice :: "int \<Rightarrow> int \<Rightarrow> 'a list \<Rightarrow> 'a list" where
  "slice start finish xs =
     (let n = int (length xs);
          s = (if start < 0 then max (n + start) 0 else min start n);
          e = (if finish < 0 then max (n + finish) 0 else min finish n)
      in take (nat (e - s)) (drop (nat s) xs))"

text \<open>\<open>paths.at(-1) ?? []\<close>\<close>

definition lastOrEmpty :: "Path list \<Rightarrow> Path" where
  "lastOrEmpty ps = (if ps = [] then [] else last ps)"

subsection \<open>Geometry\<close>

text \<open>\<open>path.slice(0, -1).map((point, pointIndex) => [point, path[pointIndex + 1]])\<close>\<close>

definition pathTolineSegments :: "Path \<Rightarrow> LineSegment list" where
  "pathTolineSegments path = zip (slice 0 (- 1) path) (tl path)"

text \<open>The condition of the \<open>if\<close> inside the two nested loops of \<open>handlePointerUp\<close>,
  with \<open>a\<close> a segment of an existing path and \<open>b\<close> a segment of the current path.\<close>

definition intersects :: "LineSegment \<Rightarrow> LineSegment \<Rightarrow> bool" where
  "intersects a b \<longleftrightarrow>
     ((x (fst a) - x (snd a)) * (y (fst b) - y (fst a)) +
      (y (fst a) - y (snd a)) * (x (fst a) - x (fst b))) *
     ((x (fst a) - x (snd a)) * (y (snd b) - y (fst a)) +
      (y (fst a) - y (snd a)) * (x (fst a) - x (snd b))) < 0 \<and>
     ((x (fst b) - x (snd b)) * (y (fst a) - y (fst b)) +
      (y (fst b) - y (snd b)) * (x (fst b) - x (fst a))) *
     ((x (fst b) - x (snd b)) * (y (snd a) - y (fst b)) +
      (y (fst b) - y (snd b)) * (x (fst b) - x (snd a))) < 0"

text \<open>The words of the specification, for comparison: the cross product of two plane
  vectors, the cross product of a segment's direction with the vector from its first
  end point to a point, and two numbers of strictly opposite signs.\<close>

definition cross :: "real \<times> real \<Rightarrow> real \<times> real \<Rightarrow> real" where
  "cross u v = fst u * snd v - snd u * fst v"

definition sideOf :: "LineSegment \<Rightarrow> Point \<Rightarrow> real" where
  "sideOf s q =
     cross (x (snd s) - x (fst s), y (snd s) - y (fst s))
           (x q - x (fst s), y q - y (fst s))"

definition strictlyOpposite :: "real \<Rightarrow> real \<Rightarrow> bool" where
  "strictlyOpposite c d \<longleftrightarrow> (c < 0 \<and> 0 < d) \<or> (0 < c \<and> d < 0)"

definition properCrossing :: "LineSegment \<Rightarrow> LineSegment \<Rightarrow> bool" where
  "properCrossing a b \<longleftrightarrow>
     strictlyOpposite (sideOf a (fst b)) (sideOf a (snd b)) \<and>
     strictlyOpposite (sideOf b (fst a)) (sideOf b (snd a))"

section \<open>Pointer input\<close>

text \<open>The point a handler builds from its event:
  \<open>{x: offsetX, y: offsetY, t: Date.now() - mountedTime, p: pressure}\<close>.\<close>

definition eventPoint :: "Page \<Rightarrow> PointerEvent \<Rightarrow> Point" where
  "eventPoint st event =
     \<lparr>x = offsetX event, y = offsetY event, t = now event - mountedTime st,
      p = pressure event\<rparr>"

text \<open>\<open>handlePointerDown\<close> of \<open>Page\<close>, the same in both variants.\<close>

definition handlePointerDown :: "PointerEvent \<Rightarrow> Page \<Rightarrow> Page" where
  "handlePointerDown event st =
     (if pointerID st \<noteq> None then st
      else st\<lparr>paths := paths st @ [[eventPoint st event]],
              pointerID := Some (pointerId event)\<rparr>)"

text \<open>\<open>handlePointerCancel\<close> of \<open>Page\<close>, the same in both variants.\<close>

definition handlePointerCancel :: "PointerEvent \<Rightarrow> Page \<Rightarrow> Page" where
  "handlePointerCancel event st =
     (if pointerID st \<noteq> Some (pointerId event) then st
      else st\<lparr>paths := slice 0 (- 1) (paths st), pointerID := None\<rparr>)"

section \<open>Lasso eraser: \<open>handlePointerUp\<close> of the lasso variant\<close>

text \<open>The body of the \<open>reduce\<close> callback: the two nested \<open>for\<close> loops that increment
  \<open>intersectedCount\<close> once for every pair of a segment \<open>a\<close> of the existing path and a
  segment \<open>b\<close> of the current path that satisfies the condition.\<close>

definition intersectedCount :: "LineSegment list \<Rightarrow> Path \<Rightarrow> nat" where
  "intersectedCount currentLineSegments existingPath =
     foldl (\<lambda>count a.
              foldl (\<lambda>count b. if intersects a b then count + 1 else count)
                count currentLineSegments)
       0 (pathTolineSegments existingPath)"

text \<open>\<open>existingPaths.reduce((max, existingPath) => Math.max(max, intersectedCount),
  -Infinity)\<close>\<close>

definition maxIntersectedCount :: "LineSegment list \<Rightarrow> Path list \<Rightarrow> jsnum" where
  "maxIntersectedCount currentLineSegments existingPaths =
     foldl (\<lambda>maxCount existingPath.
              mathMax maxCount
                (Finite (real (intersectedCount currentLineSegments existingPath))))
       NegInfinity existingPaths"

definition minX :: "Path \<Rightarrow> jsnum" where
  "minX currentPath = foldl (\<lambda>m point. mathMin m (Finite (x point))) Infinity currentPath"

definition maxX :: "Path \<Rightarrow> jsnum" where
  "maxX currentPath = foldl (\<lambda>m point. mathMax m (Finite (x point))) NegInfinity currentPath"

definition minY :: "Path \<Rightarrow> jsnum" where
  "minY currentPath = foldl (\<lambda>m point. mathMin m (Finite (y point))) Infinity currentPath"

definition maxY :: "Path \<Rightarrow> jsnum" where
  "maxY currentPath = foldl (\<lambda>m point. mathMax m (Finite (y point))) NegInfinity currentPath"

definition centerX :: "Path \<Rightarrow> jsnum" where
  "centerX existingPath =
     divByLength (foldl (\<lambda>sum point. sum + x point) 0 existingPath) (length existingPath)"

definition centerY :: "Path \<Rightarrow> jsnum" where
  "centerY existingPath =
     divByLength (foldl (\<lambda>sum point. sum + y point) 0 existingPath) (length existingPath)"

text \<open>The callback of \<open>existingPaths.filter\<close>: a path is kept when it returns true.\<close>

definition keptByLasso :: "Path \<Rightarrow> Path \<Rightarrow> bool" where
  "keptByLasso currentPath existingPath \<longleftrightarrow>
     numLess (centerX existingPath) (minX currentPath) \<or>
     numGreaterEq (centerX existingPath) (maxX currentPath) \<or>
     numLess (centerY existingPath) (minY currentPath) \<or>
     numGreaterEq (centerY existingPath) (maxY currentPath)"

definition currentPathOf :: "PointerEvent \<Rightarrow> Page \<Rightarrow> Path" where
  "currentPathOf event st = lastOrEmpty (paths st) @ [eventPoint st event]"

definition existingPathsOf :: "Page \<Rightarrow> Path list" where
  "existingPathsOf st = slice 0 (- 1) (paths st)"

definition handlePointerUp :: "PointerEvent \<Rightarrow> Page \<Rightarrow> Page" where
  "handlePointerUp event st =
     (if pointerID st \<noteq> Some (pointerId event) then st
      else
        let currentPath = currentPathOf event st;
            currentLineSegments = pathTolineSegments currentPath;
            existingPaths = existingPathsOf st
        in if numLess (maxIntersectedCount currentLineSegments existingPaths) (Finite 8)
           then st\<lparr>paths := existingPaths @ [currentPath], pointerID := None\<rparr>
           else st\<lparr>paths := filter (keptByLasso currentPath) existingPaths,
                   pointerID := None\<rparr>)"


definition crossingCount :: "Path \<Rightarrow> Path \<Rightarrow> nat" where
  "crossingCount finished existing =
     length (filter (\<lambda>ab. properCrossing (fst ab) (snd ab))
               (List.product (pathTolineSegments existing) (pathTolineSegments finished)))"







section \<open>Hold eraser: the timer of \<open>Path.handlePointerDown\<close> in the hold variant\<close>

text \<open>The callback that runs when the 500 ms timer fires; \<open>index\<close> is the index of the
  pressed path.\<close>

definition holdTimeout :: "nat \<Rightarrow> Page \<Rightarrow> Page" where
  "holdTimeout index st =
     st\<lparr>paths := slice 0 (int index) (paths st) @ slice (int index + 1) (- 1) (paths st),
        pointerID := None\<rparr>"

text \<open>The words of the specification, for comparison: the drawing without the stroke
  at one index.\<close>

definition removeAt :: "nat \<Rightarrow> 'a list \<Rightarrow> 'a list" where
  "removeAt index xs = take index xs @ drop (Suc index) xs"

section \<open>Tile growth: the callbacks of the four observers\<close>

text \<open>An observer's callback gets the \<open>isIntersecting\<close> flags of its entries. The
  500 ms delay before the state changes and the call of \<open>scrollBy\<close> are not part of the
  \<open>Page\<close> state.\<close>

definition topObserver :: "bool list \<Rightarrow> Page \<Rightarrow> Page" where
  "topObserver entries st =
     (if list_all (\<lambda>isIntersecting. \<not> isIntersecting) entries then st
      else st\<lparr>canvasHeight := canvasHeight st + tileSize,
              paths := map (map (\<lambda>prevPoint. prevPoint\<lparr>y := y prevPoint + tileSize\<rparr>))
                         (paths st)\<rparr>)"

definition bottomObserver :: "bool list \<Rightarrow> Page \<Rightarrow> Page" where
  "bottomObserver entries st =
     (if list_all (\<lambda>isIntersecting. \<not> isIntersecting) entries then st
      else st\<lparr>canvasHeight := canvasHeight st + tileSize\<rparr>)"

definition leftObserver :: "bool list \<Rightarrow> Page \<Rightarrow> Page" where
  "leftObserver entries st =
     (if list_all (\<lambda>isIntersecting. \<not> isIntersecting) entries then st
      else st\<lparr>canvasWidth := canvasWidth st + tileSize,
              paths := map (map (\<lambda>prevPoint. prevPoint\<lparr>x := x prevPoint + tileSize\<rparr>))
                         (paths st)\<rparr>)"

definition rightObserver :: "bool list \<Rightarrow> Page \<Rightarrow> Page" where
  "rightObserver entries st =
     (if list_all (\<lambda>isIntersecting. \<not> isIntersecting) entries then st
      else st\<lparr>canvasWidth := canvasWidth st + tileSize\<rparr>)"

section \<open>Momentum scroller: the interval callback\<close>









section \<open>Export: \<open>handleShareButtonClick\<close> of the lasso variant\<close>

definition padding :: real where
  "padding = 8"

definition canvasZoom :: real where
  "canvasZoom = 8"

text \<open>The loop of the filter callback, which adds the length of every segment; the
  state of the loop is \<open>length\<close> and \<open>prevPoint\<close>. \<open>v ** (1 / 2)\<close> of a number
  \<open>v \<ge> 0\<close> is its square root.\<close>

definition pathLength :: "Path \<Rightarrow> real" where
  "pathLength path =
     fst (foldl (\<lambda>(len, prevPoint) point.
                   (case prevPoint of
                      None \<Rightarrow> len
                    | Some q \<Rightarrow> len + sqrt ((x point - x q)\<^sup>2 + (y point - y q)\<^sup>2),
                    Some point))
            (0, None) path)"

definition noiseFilteredPaths :: "Path list \<Rightarrow> Path list" where
  "noiseFilteredPaths ps = filter (\<lambda>path. pathLength path \<ge> 8) ps"

datatype CanvasOp =
  Rect jsnum jsnum jsnum jsnum
| Fill
| BeginPath
| MoveTo jsnum jsnum
| LineTo jsnum jsnum
| Stroke

text \<open>The body of the drawing loop for one path: \<open>moveTo\<close> for the point of index 0,
  \<open>lineTo\<close> for the others.\<close>

definition drawPath :: "jsnum \<Rightarrow> jsnum \<Rightarrow> Path \<Rightarrow> CanvasOp list" where
  "drawPath minX' minY' path =
     [BeginPath] @
     map (\<lambda>(pointIndex, point).
            (if pointIndex = 0 then MoveTo else LineTo)
              (numMul (numSub (Finite (x point)) minX') (Finite canvasZoom))
              (numMul (numSub (Finite (y point)) minY') (Finite canvasZoom)))
       (zip [0 ..< length path] path) @
     [Stroke]"

record Bitmap =
  width :: jsnum
  height :: jsnum
  ops :: "CanvasOp list"

datatype ExportError = NoCanvasContext

text \<open>The function up to the last call on the canvas context; \<open>contextAvailable\<close>
  tells whether \<open>getContext("2d")\<close> returns a context, and without one the function
  throws. Producing the blob and sharing it are left to the platform, and so are the
  style properties of the context.\<close>

definition handleShareButtonClick :: "bool \<Rightarrow> Path list \<Rightarrow> ExportError + Bitmap" where
  "handleShareButtonClick contextAvailable ps =
     (let points = concat (noiseFilteredPaths ps);
          maxX' = numAdd (foldl (\<lambda>a b. mathMax a (Finite (x b))) NegInfinity points)
                    (Finite padding);
          minX' = numSub (foldl (\<lambda>a b. mathMin a (Finite (x b))) Infinity points)
                    (Finite padding);
          maxY' = numAdd (foldl (\<lambda>a b. mathMax a (Finite (y b))) NegInfinity points)
                    (Finite padding);
          minY' = numSub (foldl (\<lambda>a b. mathMin a (Finite (y b))) Infinity points)
                    (Finite padding);
          w = numMul (numSub maxX' minX') (Finite canvasZoom);
          h = numMul (numSub maxY' minY') (Finite canvasZoom)
      in if \<not> contextAvailable then Inl NoCanvasContext
         else Inr \<lparr>width = w, height = h,
                   ops = [Rect (Finite 0) (Finite 0) w h, Fill] @
                         concat (map (drawPath minX' minY') ps)\<rparr>)"

section \<open>Example drawings\<close>

definition mkPoint :: "real \<Rightarrow> real \<Rightarrow> Point" where
  "mkPoint a b = \<lparr>x = a, y = b, t = 0, p = 0.5\<rparr>"

text \<open>A horizontal bar, a short stroke far away from it, and a zigzag that crosses the
  bar's single segment again and again; the pointer is lifted at \<open>(45, 5)\<close>, which
  closes the eighth segment of the zigzag.\<close>

definition bar :: Path where
  "bar = [mkPoint 0 0, mkPoint 50 0]"

definition far :: Path where
  "far = [mkPoint 200 200, mkPoint 210 200]"

definition zigzag :: Path where
  "zigzag = [mkPoint 5 5, mkPoint 10 (- 5), mkPoint 15 5, mkPoint 20 (- 5),
             mkPoint 25 5, mkPoint 30 (- 5), mkPoint 35 5, mkPoint 40 (- 5)]"

text \<open>A stroke whose centre \<open>(45, 0)\<close> lies on the right edge of the zigzag's box.\<close>

definition edge :: Path where
  "edge = [mkPoint 40 0, mkPoint 50 0]"

definition lassoPage :: Page where
  "lassoPage = \<lparr>canvasWidth = 5120, canvasHeight = 5120, mountedTime = 1000,
                 paths = [far, bar, edge, zigzag], pointerID = Some 1\<rparr>"

definition liftEvent :: PointerEvent where
  "liftEvent = \<lparr>pointerId = 1, offsetX = 45, offsetY = 5, pressure = 0.5, now = 1000\<rparr>"





text \<open>The hold variant after a press on \<open>bar\<close> (index 1): the same pointer-down has
  reached \<open>handlePointerDown\<close> of the page, which appended the stroke \<open>pressed\<close>.\<close>

definition pressed :: Path where
  "pressed = [mkPoint 20 0]"

definition holdPage :: Page where
  "holdPage = \<lparr>canvasWidth = 512, canvasHeight = 512, mountedTime = 1000,
                paths = [far, bar, edge, pressed], pointerID = Some 1\<rparr>"



text \<open>A line of length 10, a tap next to it and a tap far away (a tap records the same
  point on pointer-down and on pointer-up).\<close>

definition line :: Path where
  "line = [mkPoint 0 0, mkPoint 10 0]"

definition tapNear :: Path where
  "tapNear = [mkPoint 5 0, mkPoint 5 0]"

definition tapFar :: Path where
  "tapFar = [mkPoint 100 100, mkPoint 100 100]"

text \<open>A page with no active pointer and three pointer-down events of distinct ids.\<close>

definition idlePage :: Page where
  "idlePage = \<lparr>canvasWidth = 5120, canvasHeight = 5120, mountedTime = 1000,
                paths = [bar], pointerID = None\<rparr>"

definition downEvent :: "int \<Rightarrow> real \<Rightarrow> PointerEvent" where
  "downEvent i d = \<lparr>pointerId = i, offsetX = d, offsetY = d, pressure = 0.5, now = 1000 + d\<rparr>"

section \<open>The segment-intersection predicate\<close>

lemma mult_neg_iff_strictlyOpposite:
  "c * d < 0 \<longleftrightarrow> strictlyOpposite c d" for c d :: real
  by (auto simp: strictlyOpposite_def mult_less_0_iff)

lemma intersects_sideOf:
  "intersects a b \<longleftrightarrow>
     sideOf a (fst b) * sideOf a (snd b) < 0 \<and> sideOf b (fst a) * sideOf b (snd a) < 0"
proof -
  have l: "((x (fst a) - x (snd a)) * (y (fst b) - y (fst a)) +
            (y (fst a) - y (snd a)) * (x (fst a) - x (fst b))) *
           ((x (fst a) - x (snd a)) * (y (snd b) - y (fst a)) +
            (y (fst a) - y (snd a)) * (x (fst a) - x (snd b)))
           = sideOf a (fst b) * sideOf a (snd b)"
    by (simp add: sideOf_def cross_def algebra_simps)
  have r: "((x (fst b) - x (snd b)) * (y (fst a) - y (fst b)) +
            (y (fst b) - y (snd b)) * (x (fst b) - x (fst a))) *
           ((x (fst b) - x (snd b)) * (y (snd a) - y (fst b)) +
            (y (fst b) - y (snd b)) * (x (fst b) - x (snd a)))
           = sideOf b (fst a) * sideOf b (snd a)"
    by (simp add: sideOf_def cross_def algebra_simps)
  show ?thesis
    unfolding intersects_def l r ..
qed



section \<open>Arrays and counting loops\<close>

lemma slice_butlast: "slice 0 (- 1) xs = butlast xs"
  by (cases "xs = []") (simp_all add: slice_def Let_def butlast_conv_take nat_diff_distrib')

lemma slice_take: "slice 0 (int n) xs = take n xs"
  by (simp add: slice_def Let_def min_def)

lemma slice_after: "slice (int n + 1) (- 1) xs = drop (Suc n) (butlast xs)"
proof (cases "Suc n < length xs")
  case True
  then have "slice (int n + 1) (- 1) xs = take (length xs - 1 - Suc n) (drop (Suc n) xs)"
    by (simp add: slice_def Let_def nat_diff_distrib' nat_add_distrib)
  also have "\<dots> = butlast (drop (Suc n) xs)"
    by (simp add: butlast_conv_take)
  finally show ?thesis by (simp add: butlast_drop)
next
  case False
  then show ?thesis
    by (auto simp: slice_def Let_def)
qed

lemma count_inner:
  "foldl (\<lambda>count b. if P b then count + 1 else count) (c::nat) bs = c + length (filter P bs)"
  by (induction bs arbitrary: c) simp_all

lemma count_outer:
  "foldl (\<lambda>count a. foldl (\<lambda>count b. if Q a b then count + 1 else count) count bs) (c::nat) as
     = c + length (filter (\<lambda>ab. Q (fst ab) (snd ab)) (List.product as bs))"
  by (induction as arbitrary: c) (simp_all add: count_inner filter_map o_def)

lemma intersects_properCrossing: "intersects a b \<longleftrightarrow> properCrossing a b"
  by (simp add: intersects_sideOf properCrossing_def mult_neg_iff_strictlyOpposite)

lemma intersectedCount_crossingCount:
  "intersectedCount (pathTolineSegments finished) existing = crossingCount finished existing"
  by (simp add: intersectedCount_def crossingCount_def count_outer intersects_properCrossing)

lemma numLess_foldl_mathMax:
  "m = NegInfinity \<or> (\<exists>a. m = Finite a) \<Longrightarrow>
   numLess (foldl (\<lambda>acc e. mathMax acc (Finite (f e))) m es) (Finite b)
     \<longleftrightarrow> numLess m (Finite b) \<and> (\<forall>e \<in> set es. f e < b)"
proof (induction es arbitrary: m)
  case Nil
  then show ?case by simp
next
  case (Cons e es)
  have step: "mathMax m (Finite (f e)) = NegInfinity \<or> (\<exists>a. mathMax m (Finite (f e)) = Finite a)"
    using Cons.prems by auto
  have "numLess (mathMax m (Finite (f e))) (Finite b) \<longleftrightarrow> numLess m (Finite b) \<and> f e < b"
    using Cons.prems by auto
  with Cons.IH [OF step] show ?case by auto
qed

lemma maxIntersectedCount_less:
  "numLess (maxIntersectedCount (pathTolineSegments finished) existingPaths) (Finite 8)
     \<longleftrightarrow> (\<forall>existing \<in> set existingPaths. crossingCount finished existing < 8)"
  by (simp add: maxIntersectedCount_def numLess_foldl_mathMax intersectedCount_crossingCount)

section \<open>Bounding box and centre of a path\<close>













lemma keptByLasso_empty: "finished \<noteq> [] \<Longrightarrow> \<not> keptByLasso finished []"
  by (simp add: keptByLasso_def minX_def maxX_def minY_def
      maxY_def centerX_def centerY_def divByLength_def)


section \<open>The two outcomes of lifting the pointer\<close>


lemma handlePointerUp_erase:
  assumes "pointerID st = Some (pointerId event)"
    and "\<exists>existing \<in> set (butlast (paths st)).
           8 \<le> crossingCount (currentPathOf event st) existing"
  shows "handlePointerUp event st =
           st\<lparr>paths := filter (keptByLasso (currentPathOf event st)) (butlast (paths st)),
              pointerID := None\<rparr>"
proof -
  have "\<not> (\<forall>existing \<in> set (butlast (paths st)).
           crossingCount (currentPathOf event st) existing < 8)"
    using assms(2) by (auto simp: not_less)
  then have "\<not> numLess (maxIntersectedCount (pathTolineSegments (currentPathOf event st))
                    (butlast (paths st))) (Finite 8)"
    by (simp only: maxIntersectedCount_less not_False_eq_True)
  then show ?thesis
    using assms(1)
    by (simp add: handlePointerUp_def Let_def existingPathsOf_def slice_butlast)
qed

section \<open>Erasing keeps the order of the strokes\<close>

lemma holdTimeout_paths:
  "paths (holdTimeout index st) = take index (paths st) @ drop (Suc index) (butlast (paths st))"
  by (simp add: holdTimeout_def slice_take slice_after)

lemma subseq_holdTimeout: "subseq (paths (holdTimeout index st)) (paths st)"
proof -
  have "subseq (drop (Suc index) (butlast (paths st))) (drop index (paths st))"
  proof -
    have "subseq (butlast (drop (Suc index) (paths st))) (drop (Suc index) (paths st))"
      by (rule prefix_imp_subseq) (rule prefixeq_butlast)
    moreover have "subseq (drop (Suc index) (paths st)) (drop index (paths st))"
      by (rule suffix_imp_subseq) (metis drop_drop plus_1_eq_Suc suffix_drop)
    ultimately have "subseq (butlast (drop (Suc index) (paths st))) (drop index (paths st))"
      by (rule subseq_order.trans)
    then show ?thesis
      by (simp only: butlast_drop)
  qed
  then have "subseq (take index (paths st) @ drop (Suc index) (butlast (paths st)))
               (take index (paths st) @ drop index (paths st))"
    by (simp only: subseq_append')
  then show ?thesis by (simp add: holdTimeout_paths)
qed

lemma subseq_lasso_erase:
   "subseq (filter (keptByLasso c) (butlast ps)) ps"
proof -
  have "subseq (filter (keptByLasso c) (butlast ps)) (butlast ps)"
    by (rule subseq_filter_left)
  moreover have "subseq (butlast ps) ps"
    by (rule prefix_imp_subseq) (rule prefixeq_butlast)
  ultimately show ?thesis
    by (rule subseq_order.trans)
qed

section \<open>The erase threshold\<close>






section \<open>The lasso erases by centroid\<close>



section \<open>Erasing never reorders\<close>

text \<open>
  C10. Both ways of erasing only delete: the drawing after a lasso erase, and the
  drawing after the hold timer has fired, are subsequences of the drawing before, so
  two strokes that both remain keep their relative order.
\<close>

theorem erasing_preserves_z_order:
  "(pointerID st = Some (pointerId event) \<and>
    (\<exists>existing \<in> set (butlast (paths st)).
       8 \<le> crossingCount (currentPathOf event st) existing) \<longrightarrow>
    subseq (paths (handlePointerUp event st)) (paths st)) \<and>
   subseq (paths (holdTimeout index st')) (paths st')"
  by (auto simp: handlePointerUp_erase subseq_lasso_erase subseq_holdTimeout)

theorem erasing_preserves_z_order_witness:
  "paths lassoPage = [far, bar, edge, zigzag] \<and>
   paths (handlePointerUp liftEvent lassoPage) = [far, edge] \<and>
   subseq (paths (handlePointerUp liftEvent lassoPage)) (paths lassoPage) \<and>
   paths holdPage = [far, bar, edge, pressed] \<and>
   paths (holdTimeout 1 holdPage) = [far, edge] \<and>
   subseq (paths (holdTimeout 1 holdPage)) (paths holdPage)"
proof -
  have h: "pointerID lassoPage = Some (pointerId liftEvent) \<and>
           (\<exists>existing \<in> set (butlast (paths lassoPage)).
             8 \<le> crossingCount (currentPathOf liftEvent lassoPage) existing)"
    by code_simp
  have "subseq (paths (handlePointerUp liftEvent lassoPage)) (paths lassoPage) \<and>
        subseq (paths (holdTimeout 1 holdPage)) (paths holdPage)"
    using erasing_preserves_z_order [of lassoPage liftEvent 1 holdPage] h by blast
  moreover have "paths lassoPage = [far, bar, edge, zigzag]"
    by (simp add: lassoPage_def)
  moreover have "paths (handlePointerUp liftEvent lassoPage) = [far, edge]"
    by code_simp
  moreover have "paths holdPage = [far, bar, edge, pressed]"
    by (simp add: holdPage_def)
  moreover have "paths (holdTimeout 1 holdPage) = [far, edge]"
    by code_simp
  ultimately show ?thesis
    by simp
qed

section \<open>The hold timer\<close>

text \<open>
  C6 (amended). When the hold timer fires, the drawing loses the stroke at the pressed
  index and its last stroke (the stroke that the same pointer-down started and that is
  still in progress); every other stroke remains, in the same order, and the active
  pointer is cleared.
\<close>

theorem hold_timeout_removes_pressed_and_last:
  "paths (holdTimeout index st) =
     take index (paths st) @ drop (Suc index) (butlast (paths st)) \<and>
   (index < length (paths st) \<longrightarrow>
      paths (holdTimeout index st) = removeAt index (butlast (paths st))) \<and>
   pointerID (holdTimeout index st) = None \<and>
   canvasWidth (holdTimeout index st) = canvasWidth st \<and>
   canvasHeight (holdTimeout index st) = canvasHeight st"
proof -
  have "index < length (paths st) \<Longrightarrow>
        paths (holdTimeout index st) = removeAt index (butlast (paths st))"
    by (simp add: holdTimeout_paths removeAt_def take_butlast)
  moreover have "pointerID (holdTimeout index st) = None"
    "canvasWidth (holdTimeout index st) = canvasWidth st"
    "canvasHeight (holdTimeout index st) = canvasHeight st"
    by (simp_all add: holdTimeout_def)
  ultimately show ?thesis
    by (simp add: holdTimeout_paths)
qed

theorem hold_timeout_removes_pressed_and_last_witness:
  "(1::nat) < length (paths holdPage) \<and>
   paths holdPage = [far, bar, edge, pressed] \<and>
   paths (holdTimeout 1 holdPage) = [far, edge] \<and>
   pointerID (holdTimeout 1 holdPage) = None"
proof -
  have l: "(1::nat) < length (paths holdPage)"
    by (simp add: holdPage_def)
  have "paths (holdTimeout 1 holdPage) = removeAt 1 (butlast (paths holdPage)) \<and>
        pointerID (holdTimeout 1 holdPage) = None"
    using hold_timeout_removes_pressed_and_last [of 1 holdPage] l by blast
  moreover have "removeAt 1 (butlast (paths holdPage)) = [far, edge]"
    by (simp add: removeAt_def holdPage_def)
  moreover have "paths holdPage = [far, bar, edge, pressed]"
    by (simp add: holdPage_def)
  ultimately show ?thesis
    using l by simp
qed

text \<open>
  The drawing does not lose the pressed stroke alone: with four strokes and a press on
  the second, the fourth is removed as well.
\<close>

theorem hold_timeout_only_pressed_counterexample:
  "paths holdPage = [far, bar, edge, pressed] \<and>
   removeAt 1 (paths holdPage) = [far, edge, pressed] \<and>
   paths (holdTimeout 1 holdPage) = [far, edge] \<and>
   paths (holdTimeout 1 holdPage) \<noteq> removeAt 1 (paths holdPage)"
  by code_simp

section \<open>A single active pointer\<close>

lemma foldl_handlePointerDown_active:
  "pointerID st \<noteq> None \<Longrightarrow> foldl (\<lambda>s e. handlePointerDown e s) st events = st"
  by (induction events) (simp_all add: handlePointerDown_def)

text \<open>
  C4. The page holds at most one active pointer (\<open>pointerID\<close> is one optional id). A
  pointer-down that arrives while a pointer is active changes nothing: the drawing, the
  stroke in progress and the active id stay as they are. So a run of pointer-downs that
  starts with no active pointer adds exactly one stroke, the singleton stroke of the
  first event, and makes the first event's id the active one, whatever the ids of the
  later events are.
\<close>

theorem single_active_pointer:
  "(pointerID st \<noteq> None \<longrightarrow> handlePointerDown event st = st) \<and>
   (pointerID st = None \<longrightarrow>
      foldl (\<lambda>s e. handlePointerDown e s) st (event # events) =
        st\<lparr>paths := paths st @ [[eventPoint st event]], pointerID := Some (pointerId event)\<rparr>)"
proof -
  have "pointerID (handlePointerDown event st) \<noteq> None" if "pointerID st = None"
    using that by (simp add: handlePointerDown_def)
  then have "foldl (\<lambda>s e. handlePointerDown e s) st (event # events) = handlePointerDown event st"
    if "pointerID st = None"
    using that by (simp add: foldl_handlePointerDown_active)
  then show ?thesis
    by (auto simp: handlePointerDown_def)
qed

theorem single_active_pointer_witness:
  "pointerID idlePage = None \<and>
   foldl (\<lambda>s e. handlePointerDown e s) idlePage [downEvent 1 10, downEvent 2 20, downEvent 3 30] =
     idlePage\<lparr>paths := [bar, [\<lparr>x = 10, y = 10, t = 10, p = 0.5\<rparr>]], pointerID := Some 1\<rparr> \<and>
   handlePointerDown (downEvent 2 20) (handlePointerDown (downEvent 1 10) idlePage) =
     handlePointerDown (downEvent 1 10) idlePage"
proof -
  have h: "pointerID idlePage = None"
    by (simp add: idlePage_def)
  have a: "pointerID (handlePointerDown (downEvent 1 10) idlePage) \<noteq> None"
    by (simp add: idlePage_def handlePointerDown_def)
  have "foldl (\<lambda>s e. handlePointerDown e s) idlePage
          [downEvent 1 10, downEvent 2 20, downEvent 3 30] =
        idlePage\<lparr>paths := paths idlePage @ [[eventPoint idlePage (downEvent 1 10)]],
                 pointerID := Some (pointerId (downEvent 1 10))\<rparr>"
    using single_active_pointer [of idlePage "downEvent 1 10" "[downEvent 2 20, downEvent 3 30]"] h
    by blast
  moreover have "handlePointerDown (downEvent 2 20) (handlePointerDown (downEvent 1 10) idlePage) =
     handlePointerDown (downEvent 1 10) idlePage"
    using single_active_pointer
      [of "handlePointerDown (downEvent 1 10) idlePage" "downEvent 2 20" "[]"] a
    by blast
  ultimately show ?thesis
    using h by (simp add: idlePage_def downEvent_def eventPoint_def)
qed

section \<open>Tile growth\<close>

lemma shift_y: "(q::Point)\<lparr>y := y q + d\<rparr> = \<lparr>x = x q, y = y q + d, t = t q, p = p q\<rparr>"
  by (cases q) simp

text \<open>
  C5. When an entry intersects, the top observer adds exactly \<open>tileSize\<close> to the
  canvas height and replaces every point of every stroke by the point with \<open>y\<close>
  increased by \<open>tileSize\<close> and \<open>x\<close>, \<open>t\<close>, \<open>p\<close> unchanged, and the bottom observer
  adds exactly \<open>tileSize\<close> to the height and leaves every stroke as it is. In every
  case the height does not decrease; the width is untouched by both.
\<close>

theorem tile_growth:
  "(\<not> list_all (\<lambda>isIntersecting. \<not> isIntersecting) entries \<longrightarrow>
      canvasHeight (topObserver entries st) = canvasHeight st + tileSize \<and>
      paths (topObserver entries st) =
        map (map (\<lambda>q. \<lparr>x = x q, y = y q + tileSize, t = t q, p = p q\<rparr>)) (paths st) \<and>
      canvasHeight (bottomObserver entries st) = canvasHeight st + tileSize \<and>
      paths (bottomObserver entries st) = paths st) \<and>
   canvasHeight st \<le> canvasHeight (topObserver entries st) \<and>
   canvasHeight st \<le> canvasHeight (bottomObserver entries st) \<and>
   canvasWidth (topObserver entries st) = canvasWidth st \<and>
   canvasWidth (bottomObserver entries st) = canvasWidth st \<and>
   tileSize = 1280"
  by (simp add: topObserver_def bottomObserver_def shift_y tileSize_def gridSize_def
      viewportZoom_def)

theorem tile_growth_witness:
  "canvasHeight (topObserver [False, True] lassoPage) = 6400 \<and>
   paths (topObserver [False, True] (lassoPage\<lparr>paths := [bar]\<rparr>)) =
     [[\<lparr>x = 0, y = 1280, t = 0, p = 0.5\<rparr>, \<lparr>x = 50, y = 1280, t = 0, p = 0.5\<rparr>]] \<and>
   canvasHeight (bottomObserver [False, True] (lassoPage\<lparr>paths := [bar]\<rparr>)) = 6400 \<and>
   paths (bottomObserver [False, True] (lassoPage\<lparr>paths := [bar]\<rparr>)) = [bar]"
proof -
  have h: "\<not> list_all (\<lambda>isIntersecting. \<not> isIntersecting) [False, True]"
    by simp
  show ?thesis
    using tile_growth [of "[False, True]" "lassoPage\<lparr>paths := [bar]\<rparr>"]
          tile_growth [of "[False, True]" lassoPage] h
    by (simp add: lassoPage_def bar_def mkPoint_def)
qed

section \<open>Momentum decay\<close>











section \<open>Export and the noise filter\<close>

lemma pathLength_examples:
  "pathLength line = 10" "pathLength tapNear = 0" "pathLength tapFar = 0"
  by (simp_all add: pathLength_def line_def tapNear_def tapFar_def mkPoint_def)

lemma noiseFilteredPaths_example: "noiseFilteredPaths [line, tapNear, tapFar] = [line]"
  by (simp add: noiseFilteredPaths_def pathLength_examples)

text \<open>
  C8. The export of a line of length 10 and two taps of length 0. Only the line
  survives the noise filter and only the line determines the size of the bitmap
  (\<open>(10 + 16) * 8\<close> by \<open>(0 + 16) * 8\<close>), but the drawing loop runs over all three
  strokes: after the line it strokes the near tap at \<open>(104, 64)\<close>, inside the bitmap,
  and the far tap at \<open>(864, 864)\<close>. The strokes below the threshold are left out of
  the bounding box and are still drawn.
\<close>

theorem export_draws_noise_strokes:
  "noiseFilteredPaths [line, tapNear, tapFar] = [line] \<and>
   handleShareButtonClick True [line, tapNear, tapFar] =
     Inr \<lparr>width = Finite 208, height = Finite 128,
      ops = [Rect (Finite 0) (Finite 0) (Finite 208) (Finite 128), Fill,
             BeginPath, MoveTo (Finite 64) (Finite 64), LineTo (Finite 144) (Finite 64), Stroke,
             BeginPath, MoveTo (Finite 104) (Finite 64), LineTo (Finite 104) (Finite 64), Stroke,
             BeginPath, MoveTo (Finite 864) (Finite 864), LineTo (Finite 864) (Finite 864),
             Stroke]\<rparr>"
  unfolding handleShareButtonClick_def noiseFilteredPaths_example
  by (simp add: Let_def drawPath_def numSub_def padding_def canvasZoom_def line_def
      tapNear_def tapFar_def mkPoint_def upt_rec)

end
